theory Spec2Isabelle
  imports
    Complex_Main
    "HOL-Library.Char_ord"
    "HOL-Library.List_Lexorder"
    "HOL-Library.Product_Lexorder"
begin

section \<open>Data model\<close>

text \<open>
  The program is \<^verbatim>\<open>src/app.py\<close>, a Streamlit page script over pandas frames and a
  SQLite file. Amounts are Python floats (SQLite \<^verbatim>\<open>REAL\<close>); they are modelled as
  \<^typ>\<open>real\<close>, so rounding is not part of this development. A date is the triple
  (year, month, day); the store keeps its ISO-8601 text, which is identified with the
  date. Text columns are strings.
\<close>

type_synonym date = "nat \<times> nat \<times> nat"

type_synonym period = "nat \<times> nat"

text \<open>A row of the \<^verbatim>\<open>transactions\<close> table, columns in the order of the table.\<close>

record transaction =
  Date :: date
  Category :: string
  Amount :: real
  Description :: string
  Type :: string
  User :: string

text \<open>
  The exceptions that no \<^verbatim>\<open>except\<close> clause of the script catches: KeyError, NameError,
  and \<^verbatim>\<open>pandas.errors.DatabaseError\<close>, an OSError that pandas raises in place of the
  \<^verbatim>\<open>sqlite3.Error\<close> of a statement it runs itself.
\<close>

datatype py_error =
  KeyError string
  | NameError string
  | DatabaseError string

text \<open>
  A pandas frame is either a table with its columns and some rows (\<open>Rows\<close>), or the
  frame \<^verbatim>\<open>pd.DataFrame()\<close> with no columns and no rows (\<open>Blank\<close>), which is what the
  load functions return in their \<^verbatim>\<open>except\<close> branch.
\<close>

datatype 'r frame = Rows "'r list" | Blank

text \<open>\<^verbatim>\<open>df.empty\<close>\<close>

definition frame_empty :: "'r frame \<Rightarrow> bool" where
  "frame_empty df = (case df of Blank \<Rightarrow> True | Rows xs \<Rightarrow> xs = [])"

text \<open>\<^verbatim>\<open>df[c]\<close>: the rows seen through column \<open>c\<close>; a frame without columns raises KeyError.\<close>

definition column :: "string \<Rightarrow> 'r frame \<Rightarrow> py_error + 'r list" where
  "column c df = (case df of Blank \<Rightarrow> Inl (KeyError c) | Rows xs \<Rightarrow> Inr xs)"

text \<open>Sequencing of statements that may raise.\<close>

definition and_then :: "py_error + 'a \<Rightarrow> ('a \<Rightarrow> py_error + 'b) \<Rightarrow> py_error + 'b" where
  "and_then r f = (case r of Inl e \<Rightarrow> Inl e | Inr x \<Rightarrow> f x)"

section \<open>Aggregation\<close>

text \<open>
  \<^verbatim>\<open>df[df['Type'] == t]['Amount'].sum()\<close> (lines 44-45 and 167-168): the sum of an
  empty selection is 0.
\<close>

definition type_total :: "string \<Rightarrow> transaction frame \<Rightarrow> py_error + real" where
  "type_total t df =
     and_then (column ''Type'' df)
       (\<lambda>xs. Inr (sum_list (map Amount (filter (\<lambda>r. Type r = t) xs))))"

text \<open>\<^verbatim>\<open>dt.to_period('M')\<close>: the calendar month of a date.\<close>

definition to_period_M :: "date \<Rightarrow> period" where
  "to_period_M d = (case d of (y, m, _) \<Rightarrow> (y, m))"

text \<open>
  \<^verbatim>\<open>groupby(keys)[col].sum()\<close>: one entry per key that occurs, keys sorted, each with
  the sum of its group.
\<close>

definition groupby_sum :: "('k::linorder \<times> real) list \<Rightarrow> ('k \<times> real) list" where
  "groupby_sum xs =
     map (\<lambda>k. (k, sum_list (map snd (filter (\<lambda>x. fst x = k) xs))))
       (sort (remdups (map fst xs)))"

text \<open>
  \<^verbatim>\<open>unstack(fill_value=v)\<close> of a series keyed by (index, column): one row per index
  value, one cell per column value that occurs anywhere, \<open>v\<close> where the pair is missing.
\<close>

definition unstack ::
  "(('i::linorder \<times> 'c::linorder) \<times> real) list \<Rightarrow> real \<Rightarrow> ('i \<times> ('c \<times> real) list) list" where
  "unstack s v =
     (let idx = sort (remdups (map (\<lambda>x. fst (fst x)) s));
          cols = sort (remdups (map (\<lambda>x. snd (fst x)) s))
      in map (\<lambda>i. (i, map (\<lambda>c. (c, case map_of s (i, c) of None \<Rightarrow> v | Some a \<Rightarrow> a)) cols)) idx)"

text \<open>\<^verbatim>\<open>reindex(columns=cols, fill_value=v)\<close>: exactly the columns \<open>cols\<close>, \<open>v\<close> for a new one.\<close>

definition reindex_columns ::
  "'c list \<Rightarrow> real \<Rightarrow> ('i \<times> ('c \<times> real) list) list \<Rightarrow> ('i \<times> ('c \<times> real) list) list" where
  "reindex_columns cols v wide =
     map (\<lambda>(i, cells). (i, map (\<lambda>c. (c, case map_of cells c of None \<Rightarrow> v | Some a \<Rightarrow> a)) cols)) wide"

text \<open>A row of \<^verbatim>\<open>monthly_summary\<close> after \<^verbatim>\<open>reset_index()\<close>.\<close>

record monthly_row =
  Month :: period
  Income :: real
  Expense :: real
  Net :: real

text \<open>
  Lines 55-61. The frame is reindexed to the two columns Income and Expense, in this
  order, so a row of it is read by position.
\<close>

definition monthly_summary :: "transaction list \<Rightarrow> monthly_row list" where
  "monthly_summary xs =
     (let monthly_data = map (\<lambda>r. ((to_period_M (Date r), Type r), Amount r)) xs;
          wide = reindex_columns [''Income'', ''Expense''] 0 (unstack (groupby_sum monthly_data) 0)
      in map (\<lambda>(m, cells).
               (let inc = snd (cells ! 0); ex = snd (cells ! 1)
                in \<lparr>Month = m, Income = inc, Expense = ex, Net = inc - ex\<rparr>))
           wide)"

text \<open>What the dashboard shows: the warning, or the metrics, the monthly chart and the pie.\<close>

datatype dashboard =
  No_transactions
  | Dashboard real real real "monthly_row list" "transaction list option"

text \<open>
  \<^verbatim>\<open>show_dashboard\<close>, lines 36-74. The pie chart is drawn from the Expense rows when
  there are some.
\<close>

definition show_dashboard :: "transaction frame \<Rightarrow> py_error + dashboard" where
  "show_dashboard df =
     (if frame_empty df then Inr No_transactions
      else
        and_then (type_total ''Income'' df) (\<lambda>total_income.
        and_then (type_total ''Expense'' df) (\<lambda>total_expenses.
        and_then (column ''Date'' df) (\<lambda>xs.
        and_then (column ''Type'' df) (\<lambda>ys.
          (let net_savings = total_income - total_expenses;
               expense_data = filter (\<lambda>r. Type r = ''Expense'') ys
           in Inr (Dashboard total_income total_expenses net_savings (monthly_summary xs)
                     (if expense_data = [] then None else Some expense_data))))))))"

section \<open>The store\<close>

text \<open>Rows of the \<^verbatim>\<open>automated_payments\<close> and \<^verbatim>\<open>loans\<close> tables.\<close>

record payment =
  p_Name :: string
  p_Amount :: real
  Frequency :: string
  NextPaymentDate :: date
  p_User :: string

record loan =
  l_Name :: string
  l_Amount :: real
  l_Type :: string
  DueDate :: date
  l_User :: string

text \<open>\<^verbatim>\<open>sqlite3.Error\<close> (or a subclass) with its message.\<close>

datatype sqlite_error = Sqlite3Error string

definition error_text :: "sqlite_error \<Rightarrow> string" where
  "error_text e = (case e of Sqlite3Error m \<Rightarrow> m)"

text \<open>
  The SQLite file \<^verbatim>\<open>finance_data.db\<close>: five tables, each absent (\<open>None\<close>) until it is
  created, rows in insertion order. \<open>failing\<close> says when the database starts to raise:
  with \<open>None\<close> no call into it ever fails; with \<open>Some (n, e)\<close> the next \<open>n\<close> calls
  succeed and every call after them raises \<open>e\<close>. So \<open>Some (0, e)\<close> is a file that
  cannot be opened, \<open>Some (1, e)\<close> a file that opens and fails at its first statement
  (it is not a database, or it is locked), and so on. A call is \<^verbatim>\<open>sqlite3.connect\<close>,
  one \<^verbatim>\<open>cursor.execute\<close>, \<^verbatim>\<open>conn.commit\<close>, or one call of \<^verbatim>\<open>pd.read_sql\<close> or
  \<^verbatim>\<open>df.to_sql\<close>.
\<close>

record store =
  failing :: "(nat \<times> sqlite_error) option"
  tbl_transactions :: "transaction list option"
  tbl_budget :: "(string \<times> real) list option"
  tbl_savings_goal :: "(string \<times> real) list option"
  tbl_automated_payments :: "payment list option"
  tbl_loans :: "loan list option"

text \<open>The database is online when no call into it fails.\<close>

definition online :: "store \<Rightarrow> bool" where
  "online s = (failing s = None)"

text \<open>
  One call that the script makes on \<^verbatim>\<open>sqlite3\<close> itself: it raises \<^verbatim>\<open>sqlite3.Error\<close>
  when the database fails.
\<close>

definition sqlite3_call :: "store \<Rightarrow> store \<times> (sqlite_error + unit)" where
  "sqlite3_call s =
     (case failing s of
        None \<Rightarrow> (s, Inr ())
      | Some (n, e) \<Rightarrow>
          (case n of
             0 \<Rightarrow> (s, Inl e)
           | Suc k \<Rightarrow> (s\<lparr>failing := Some (k, e)\<rparr>, Inr ())))"

text \<open>
  What the body of a \<^verbatim>\<open>try\<close> block that also calls pandas can raise: the
  \<^verbatim>\<open>sqlite3.Error\<close> of a call of its own, or the \<^verbatim>\<open>pandas.errors.DatabaseError\<close> into
  which pandas turns the error of a statement that it runs.
\<close>

datatype raised = Sqlite3 sqlite_error | Pandas string

definition direct_call :: "store \<Rightarrow> store \<times> (raised + unit)" where
  "direct_call s =
     (case sqlite3_call s of
        (s', Inl e) \<Rightarrow> (s', Inl (Sqlite3 e))
      | (s', Inr u) \<Rightarrow> (s', Inr u))"

definition pandas_call :: "store \<Rightarrow> store \<times> (raised + unit)" where
  "pandas_call s =
     (case sqlite3_call s of
        (s', Inl e) \<Rightarrow> (s', Inl (Pandas (''Execution failed on sql: '' @ error_text e)))
      | (s', Inr u) \<Rightarrow> (s', Inr u))"

text \<open>The next statement of a \<^verbatim>\<open>try\<close> body runs when the one before did not raise.\<close>

definition then_do ::
  "store \<times> ('e + 'a) \<Rightarrow> ('a \<Rightarrow> store \<Rightarrow> store \<times> ('e + 'b)) \<Rightarrow> store \<times> ('e + 'b)" where
  "then_do r f = (case r of (s, Inl e) \<Rightarrow> (s, Inl e) | (s, Inr x) \<Rightarrow> f x s)"

text \<open>What the page shows through \<^verbatim>\<open>st.error\<close>, \<^verbatim>\<open>st.success\<close>, \<^verbatim>\<open>st.warning\<close>, \<^verbatim>\<open>st.info\<close>.\<close>

datatype notice = St_error string | St_success string | St_warning string | St_info string

text \<open>
  \<^verbatim>\<open>except sqlite3.Error as e\<close> after a body that calls pandas: the error of a call
  of the script's own becomes a notice and the fallback value; the error that pandas
  raised is not a \<^verbatim>\<open>sqlite3.Error\<close> and leaves the function.
\<close>

definition except_sqlite3 ::
  "store \<times> (raised + 'a) \<Rightarrow> string \<Rightarrow> 'a \<Rightarrow> store \<times> notice list \<times> (py_error + 'a)" where
  "except_sqlite3 r prefix fallback =
     (case r of
        (s, Inl (Sqlite3 e)) \<Rightarrow> (s, [St_error (prefix @ error_text e)], Inr fallback)
      | (s, Inl (Pandas m)) \<Rightarrow> (s, [], Inl (DatabaseError m))
      | (s, Inr x) \<Rightarrow> (s, [], Inr x))"

text \<open>
  \<^verbatim>\<open>CREATE TABLE IF NOT EXISTS\<close>, the rows of a table, and \<^verbatim>\<open>to_sql(if_exists='append')\<close>,
  which creates the table when it is absent.
\<close>

definition create_if_not_exists :: "'r list option \<Rightarrow> 'r list option" where
  "create_if_not_exists t = (case t of None \<Rightarrow> Some [] | Some xs \<Rightarrow> Some xs)"

definition table_rows :: "'r list option \<Rightarrow> 'r list" where
  "table_rows t = (case t of None \<Rightarrow> [] | Some xs \<Rightarrow> xs)"

definition to_sql_append :: "'r list \<Rightarrow> 'r list option \<Rightarrow> 'r list option" where
  "to_sql_append df t = Some (table_rows t @ df)"

text \<open>
  \<^verbatim>\<open>INSERT OR REPLACE\<close> into a table whose first column is its primary key: a row with
  the same key is deleted, then the new row is inserted.
\<close>

definition insert_or_replace :: "'k \<times> 'v \<Rightarrow> ('k \<times> 'v) list \<Rightarrow> ('k \<times> 'v) list" where
  "insert_or_replace kv xs = filter (\<lambda>x. fst x \<noteq> fst kv) xs @ [kv]"

text \<open>
  \<^verbatim>\<open>save_to_database\<close>, lines 270-276: the connection is the script's call, the write
  is pandas'.
\<close>

definition save_to_database :: "transaction list \<Rightarrow> store \<Rightarrow> store \<times> notice list \<times> (py_error + unit)" where
  "save_to_database df s =
     except_sqlite3
       (then_do (direct_call s) (\<lambda>_ s1.
        then_do (pandas_call s1) (\<lambda>_ s2.
          (s2\<lparr>tbl_transactions := to_sql_append df (tbl_transactions s2)\<rparr>, Inr ()))))
       ''An error occurred while saving to the database: '' ()"

text \<open>
  \<^verbatim>\<open>load_from_database\<close>, lines 278-294: the connection and the
  \<^verbatim>\<open>CREATE TABLE IF NOT EXISTS\<close> are the script's calls, the read is pandas'.
\<close>

definition load_from_database :: "store \<Rightarrow> store \<times> notice list \<times> (py_error + transaction frame)" where
  "load_from_database s =
     except_sqlite3
       (then_do (direct_call s) (\<lambda>_ s1.
        then_do (direct_call s1) (\<lambda>_ s2.
          (let s3 = s2\<lparr>tbl_transactions := create_if_not_exists (tbl_transactions s2)\<rparr>
           in then_do (pandas_call s3) (\<lambda>_ s4.
                (s4, Inr (Rows (table_rows (tbl_transactions s4)))))))))
       ''An error occurred while loading from the database: '' Blank"

text \<open>
  The loop of lines 308-309, one \<^verbatim>\<open>cursor.execute\<close> per item of the dictionary, on the
  rows as the open transaction sees them.
\<close>

fun insert_all ::
  "('k \<times> 'v) list \<Rightarrow> ('k \<times> 'v) list \<Rightarrow> store \<Rightarrow> store \<times> (sqlite_error + ('k \<times> 'v) list)" where
  "insert_all [] rows s = (s, Inr rows)"
| "insert_all (kv # kvs) rows s =
     then_do (sqlite3_call s) (\<lambda>_ s'. insert_all kvs (insert_or_replace kv rows) s')"

text \<open>
  \<^verbatim>\<open>save_budget_to_database\<close>, lines 296-314. The dictionary is given by its items, in
  insertion order, as the loop reads them. Every call is the script's own, so the
  \<^verbatim>\<open>except\<close> clause catches whatever the body raises. The table is created at once;
  the rows are written when the commit succeeds.
\<close>

definition save_budget_to_database :: "(string \<times> real) list \<Rightarrow> store \<Rightarrow> store \<times> notice list" where
  "save_budget_to_database budget_data s =
     (case then_do (sqlite3_call s) (\<lambda>_ s1.
           then_do (sqlite3_call s1) (\<lambda>_ s2.
             (let s3 = s2\<lparr>tbl_budget := create_if_not_exists (tbl_budget s2)\<rparr>
              in then_do (insert_all budget_data (table_rows (tbl_budget s3)) s3) (\<lambda>rows s4.
                 then_do (sqlite3_call s4) (\<lambda>_ s5.
                   (s5\<lparr>tbl_budget := Some rows\<rparr>, Inr ())))))) of
        (s', Inl e) \<Rightarrow> (s', [St_error (''An error occurred while saving the budget: '' @ error_text e)])
      | (s', Inr _) \<Rightarrow> (s', []))"

text \<open>\<^verbatim>\<open>SELECT * FROM budget\<close>: the table is not created here, so it may be missing.\<close>

definition select_budget :: "store \<Rightarrow> store \<times> (sqlite_error + (string \<times> real) list)" where
  "select_budget s =
     then_do (sqlite3_call s) (\<lambda>_ s'.
       (case tbl_budget s' of
          None \<Rightarrow> (s', Inl (Sqlite3Error ''no such table: budget''))
        | Some xs \<Rightarrow> (s', Inr xs)))"

text \<open>The dictionary comprehension of line 322: a later row replaces an earlier one.\<close>

definition dict_of_rows :: "('k \<times> 'v) list \<Rightarrow> ('k \<rightharpoonup> 'v)" where
  "dict_of_rows xs = fold (\<lambda>kv m. m(fst kv \<mapsto> snd kv)) xs Map.empty"

text \<open>\<^verbatim>\<open>load_budget_from_database\<close>, lines 316-328.\<close>

definition load_budget_from_database :: "store \<Rightarrow> store \<times> notice list \<times> (string \<rightharpoonup> real)" where
  "load_budget_from_database s =
     (case then_do (sqlite3_call s) (\<lambda>_ s1. select_budget s1) of
        (s', Inl e) \<Rightarrow>
          (s', [St_error (''An error occurred while loading the budget: '' @ error_text e)], Map.empty)
      | (s', Inr xs) \<Rightarrow> (s', [], dict_of_rows xs))"

text \<open>\<^verbatim>\<open>save_savings_goal_to_database\<close>, lines 330-347, for the session's user.\<close>

definition save_savings_goal_to_database :: "string \<Rightarrow> real \<Rightarrow> store \<Rightarrow> store \<times> notice list" where
  "save_savings_goal_to_database u goal s =
     (case then_do (sqlite3_call s) (\<lambda>_ s1.
           then_do (sqlite3_call s1) (\<lambda>_ s2.
             (let s3 = s2\<lparr>tbl_savings_goal := create_if_not_exists (tbl_savings_goal s2)\<rparr>
              in then_do (sqlite3_call s3) (\<lambda>_ s4.
                 then_do (sqlite3_call s4) (\<lambda>_ s5.
                   (s5\<lparr>tbl_savings_goal :=
                         Some (insert_or_replace (u, goal) (table_rows (tbl_savings_goal s5)))\<rparr>,
                    Inr ())))))) of
        (s', Inl e) \<Rightarrow>
          (s', [St_error (''An error occurred while saving the savings goal: '' @ error_text e)])
      | (s', Inr _) \<Rightarrow> (s', []))"

text \<open>
  \<^verbatim>\<open>load_savings_goal_from_database\<close>, lines 349-367: \<^verbatim>\<open>fetchone()\<close> is the first row
  of the user, and the goal is 0 when there is none.
\<close>

definition load_savings_goal_from_database :: "string \<Rightarrow> store \<Rightarrow> store \<times> notice list \<times> real" where
  "load_savings_goal_from_database u s =
     (case then_do (sqlite3_call s) (\<lambda>_ s1.
           then_do (sqlite3_call s1) (\<lambda>_ s2.
             (let s3 = s2\<lparr>tbl_savings_goal := create_if_not_exists (tbl_savings_goal s2)\<rparr>
              in then_do (sqlite3_call s3) (\<lambda>_ s4.
                   (s4, Inr (case find (\<lambda>x. fst x = u) (table_rows (tbl_savings_goal s4)) of
                               None \<Rightarrow> 0
                             | Some x \<Rightarrow> snd x)))))) of
        (s', Inl e) \<Rightarrow>
          (s', [St_error (''An error occurred while loading the savings goal: '' @ error_text e)], 0)
      | (s', Inr goal) \<Rightarrow> (s', [], goal))"

text \<open>\<^verbatim>\<open>save_automated_payment_to_database\<close>, lines 369-383.\<close>

definition save_automated_payment_to_database ::
  "payment list \<Rightarrow> store \<Rightarrow> store \<times> notice list \<times> (py_error + unit)" where
  "save_automated_payment_to_database df s =
     except_sqlite3
       (then_do (direct_call s) (\<lambda>_ s1.
        then_do (direct_call s1) (\<lambda>_ s2.
          (let s3 = s2\<lparr>tbl_automated_payments := create_if_not_exists (tbl_automated_payments s2)\<rparr>
           in then_do (pandas_call s3) (\<lambda>_ s4.
                (s4\<lparr>tbl_automated_payments := to_sql_append df (tbl_automated_payments s4)\<rparr>,
                 Inr ()))))))
       ''An error occurred while saving the automated payment: '' ()"

text \<open>\<^verbatim>\<open>load_automated_payments_from_database\<close>, lines 385-401.\<close>

definition load_automated_payments_from_database ::
  "store \<Rightarrow> store \<times> notice list \<times> (py_error + payment frame)" where
  "load_automated_payments_from_database s =
     except_sqlite3
       (then_do (direct_call s) (\<lambda>_ s1.
        then_do (direct_call s1) (\<lambda>_ s2.
          (let s3 = s2\<lparr>tbl_automated_payments := create_if_not_exists (tbl_automated_payments s2)\<rparr>
           in then_do (pandas_call s3) (\<lambda>_ s4.
                (s4, Inr (Rows (table_rows (tbl_automated_payments s4)))))))))
       ''An error occurred while loading automated payments: '' Blank"

text \<open>\<^verbatim>\<open>save_loan_to_database\<close>, lines 403-417.\<close>

definition save_loan_to_database :: "loan list \<Rightarrow> store \<Rightarrow> store \<times> notice list \<times> (py_error + unit)" where
  "save_loan_to_database df s =
     except_sqlite3
       (then_do (direct_call s) (\<lambda>_ s1.
        then_do (direct_call s1) (\<lambda>_ s2.
          (let s3 = s2\<lparr>tbl_loans := create_if_not_exists (tbl_loans s2)\<rparr>
           in then_do (pandas_call s3) (\<lambda>_ s4.
                (s4\<lparr>tbl_loans := to_sql_append df (tbl_loans s4)\<rparr>, Inr ()))))))
       ''An error occurred while saving the loan: '' ()"

text \<open>\<^verbatim>\<open>load_loans_from_database\<close>, lines 419-435.\<close>

definition load_loans_from_database :: "store \<Rightarrow> store \<times> notice list \<times> (py_error + loan frame)" where
  "load_loans_from_database s =
     except_sqlite3
       (then_do (direct_call s) (\<lambda>_ s1.
        then_do (direct_call s1) (\<lambda>_ s2.
          (let s3 = s2\<lparr>tbl_loans := create_if_not_exists (tbl_loans s2)\<rparr>
           in then_do (pandas_call s3) (\<lambda>_ s4.
                (s4, Inr (Rows (table_rows (tbl_loans s4)))))))))
       ''An error occurred while loading loans: '' Blank"

section \<open>Session state and pages\<close>

text \<open>\<^verbatim>\<open>st.session_state\<close>: the user, the cached ledger and the cached goal.\<close>

record session =
  user :: string
  transactions :: "transaction frame"
  savings_goal :: real

text \<open>
  The first run of \<^verbatim>\<open>main\<close>, lines 10-16, when the session state holds nothing yet.
\<close>

definition init_session :: "store \<Rightarrow> store \<times> notice list \<times> (py_error + session)" where
  "init_session s =
     (let u = ''default_user''
      in case load_from_database s of
           (s1, n1, Inl e) \<Rightarrow> (s1, n1, Inl e)
         | (s1, n1, Inr df) \<Rightarrow>
             (case load_savings_goal_from_database u s1 of
                (s2, n2, goal) \<Rightarrow>
                  (s2, n1 @ n2, Inr \<lparr>user = u, transactions = df, savings_goal = goal\<rparr>)))"

text \<open>
  \<^verbatim>\<open>st.number_input(..., value=v)\<close>: what the user typed, or the default \<open>v\<close> when the
  widget was left alone.
\<close>

definition number_input :: "real option \<Rightarrow> real \<Rightarrow> real" where
  "number_input typed v = (case typed of None \<Rightarrow> v | Some x \<Rightarrow> x)"

subsection \<open>Transactions page\<close>

text \<open>
  The submit branch of \<^verbatim>\<open>show_transactions\<close>, lines 87-99: the form's values become one
  row, the row is saved, and the cached ledger is replaced by a full reload.
\<close>

definition add_transaction ::
  "date \<Rightarrow> string \<Rightarrow> real \<Rightarrow> string \<Rightarrow> string \<Rightarrow> session \<Rightarrow> store \<Rightarrow>
   session \<times> store \<times> notice list \<times> (py_error + unit)" where
  "add_transaction date category amount description transaction_type ss s =
     (let new_transaction =
            [\<lparr>Date = date, Category = category, Amount = amount, Description = description,
              Type = transaction_type, User = user ss\<rparr>]
      in case save_to_database new_transaction s of
           (s1, n1, Inl e) \<Rightarrow> (ss, s1, n1, Inl e)
         | (s1, n1, Inr _) \<Rightarrow>
             (case load_from_database s1 of
                (s2, n2, Inl e) \<Rightarrow> (ss, s2, n1 @ n2, Inl e)
              | (s2, n2, Inr df) \<Rightarrow>
                  (ss\<lparr>transactions := df\<rparr>, s2,
                   n1 @ n2 @ [St_success ''Transaction added successfully!''], Inr ())))"

subsection \<open>Budget page\<close>

definition categories :: "string list" where
  "categories =
     [''Food & Groceries'', ''Transportation'', ''Housing/Rent'', ''Utilities'',
      ''Entertainment'', ''Shopping'', ''Healthcare'', ''Other'']"

text \<open>\<^verbatim>\<open>d.get(k, v)\<close> on a dictionary and on a series.\<close>

definition dict_get :: "('k \<rightharpoonup> real) \<Rightarrow> 'k \<Rightarrow> real \<Rightarrow> real" where
  "dict_get d k v = (case d k of None \<Rightarrow> v | Some x \<Rightarrow> x)"

text \<open>
  Line 129: the Expense rows grouped by Category, each group summed; a series keyed by
  the categories that have an Expense row.
\<close>

definition actual_spending :: "transaction frame \<Rightarrow> py_error + (string \<times> real) list" where
  "actual_spending df =
     and_then (column ''Type'' df)
       (\<lambda>xs. Inr (groupby_sum (map (\<lambda>r. (Category r, Amount r)) (filter (\<lambda>r. Type r = ''Expense'') xs))))"

record comparison =
  c_Category :: string
  Budget :: real
  Actual :: real
  Difference :: real

text \<open>Lines 131-139.\<close>

definition comparison_data :: "(string \<times> real) list \<Rightarrow> (string \<times> real) list \<Rightarrow> comparison list" where
  "comparison_data new_budget_data actual_series =
     map (\<lambda>(category, budget).
            (let actual = dict_get (map_of actual_series) category 0
             in \<lparr>c_Category = category, Budget = budget, Actual = actual,
                 Difference = budget - actual\<rparr>))
       new_budget_data"

text \<open>
  The names bound at module level when a page runs: the five imports of lines 1-5 and
  the functions the module defines. A name a function reads without assigning it is
  looked up here; a name that is not bound raises NameError.
\<close>

definition module_names :: "string list" where
  "module_names =
     [''st'', ''pd'', ''px'', ''sqlite3'', ''datetime'',
      ''main'', ''show_dashboard'', ''show_transactions'', ''budget_management'',
      ''savings_goals'', ''automated_payments'', ''loans'', ''data_export'',
      ''save_to_database'', ''load_from_database'', ''save_budget_to_database'',
      ''load_budget_from_database'', ''save_savings_goal_to_database'',
      ''load_savings_goal_from_database'', ''save_automated_payment_to_database'',
      ''load_automated_payments_from_database'', ''save_loan_to_database'',
      ''load_loans_from_database'']"

definition lookup_name :: "string \<Rightarrow> py_error + unit" where
  "lookup_name n = (if n \<in> set module_names then Inr () else Inl (NameError n))"

text \<open>
  Lines 141-147: the grouped bar chart, two series over the categories, built through
  the name \<^verbatim>\<open>go\<close>.
\<close>

definition budget_chart :: "comparison list \<Rightarrow> py_error + (string \<times> (string \<times> real) list) list" where
  "budget_chart comparison_df =
     and_then (lookup_name ''go'')
       (\<lambda>_. Inr [(''Budget'', map (\<lambda>r. (c_Category r, Budget r)) comparison_df),
                 (''Actual'', map (\<lambda>r. (c_Category r, Actual r)) comparison_df)])"

text \<open>Lines 149-153: the rows for which a warning is shown.\<close>

definition budget_alerts :: "comparison list \<Rightarrow> comparison list" where
  "budget_alerts comparison_df = filter (\<lambda>r. Actual r > Budget r) comparison_df"

text \<open>
  \<^verbatim>\<open>budget_management\<close>, lines 108-153. \<open>typed c\<close> is what the user typed into the
  widget of category \<open>c\<close>, \<open>save_budget\<close> whether the button was pressed. The result is
  the store, the notices, and either the exception that ended the page or the chart with
  the rows that are flagged.
\<close>

definition budget_management ::
  "(string \<Rightarrow> real option) \<Rightarrow> bool \<Rightarrow> session \<Rightarrow> store \<Rightarrow>
   store \<times> notice list \<times> (py_error + ((string \<times> (string \<times> real) list) list \<times> comparison list))" where
  "budget_management typed save_budget ss s =
     (let (s0, n1, budget_data) = load_budget_from_database s;
          new_budget_data = map (\<lambda>category. (category, number_input (typed category) (dict_get budget_data category 0))) categories;
          (s1, n2) =
            (if save_budget then
               (let (s', n) = save_budget_to_database new_budget_data s0
                in (s', n @ [St_success ''Budget saved successfully!'']))
             else (s0, []))
      in (s1, n1 @ n2,
          and_then (actual_spending (transactions ss)) (\<lambda>actual_series.
            (let comparison_df = comparison_data new_budget_data actual_series
             in and_then (budget_chart comparison_df) (\<lambda>fig_comparison.
                  Inr (fig_comparison, budget_alerts comparison_df))))))"

subsection \<open>Savings page\<close>

text \<open>
  \<^verbatim>\<open>savings_goals\<close>, lines 155-184. \<open>typed\<close> is what the user typed into the goal widget,
  \<open>update\<close> whether the button was pressed. The page ends with the exception that
  stopped it, or with the figure it writes as current savings and the fraction it hands
  to \<^verbatim>\<open>st.progress\<close>.
\<close>

definition savings_goals ::
  "real option \<Rightarrow> bool \<Rightarrow> session \<Rightarrow> store \<Rightarrow> session \<times> store \<times> notice list \<times> (py_error + real \<times> real)" where
  "savings_goals typed update ss s =
     (let current_goal = savings_goal ss;
          new_goal = number_input typed current_goal;
          (ss1, s1, n1) =
            (if update then
               (let (s', n) = save_savings_goal_to_database (user ss) new_goal s
                in (ss\<lparr>savings_goal := new_goal\<rparr>, s', n @ [St_success ''Savings goal updated successfully!'']))
             else (ss, s, []))
      in case and_then (type_total ''Income'' (transactions ss1)) (\<lambda>total_income.
              and_then (type_total ''Expense'' (transactions ss1)) (\<lambda>total_expenses.
                Inr (total_income - total_expenses))) of
           Inl e \<Rightarrow> (ss1, s1, n1, Inl e)
         | Inr total_savings \<Rightarrow>
             (case load_automated_payments_from_database s1 of
                (s2, n2, Inl e) \<Rightarrow> (ss1, s2, n1 @ n2, Inl e)
              | (s2, n2, Inr automated) \<Rightarrow>
                  (let expected_expenses =
                         (case automated of
                            Blank \<Rightarrow> 0
                          | Rows ps \<Rightarrow> if ps = [] then 0 else sum_list (map p_Amount ps));
                       adjusted_savings = total_savings - expected_expenses;
                       progress = (if new_goal > 0 then adjusted_savings / new_goal else 0);
                       progress = max 0 (min progress 1)
                   in (ss1, s2, n1 @ n2, Inr (adjusted_savings, progress)))))"

subsection \<open>Loans page\<close>

text \<open>
  The body of \<^verbatim>\<open>if st.button("Add Loan")\<close>, lines 226-248. \<open>today\<close> is the value of
  \<^verbatim>\<open>datetime.now().date()\<close>.
\<close>

definition add_loan_submitted ::
  "string \<Rightarrow> real \<Rightarrow> string \<Rightarrow> date \<Rightarrow> date \<Rightarrow> session \<Rightarrow> store \<Rightarrow>
   session \<times> store \<times> notice list \<times> (py_error + unit)" where
  "add_loan_submitted loan_name amount loan_type due_date today ss s =
     (let new_loan =
            [\<lparr>l_Name = loan_name, l_Amount = amount, l_Type = loan_type,
              DueDate = due_date, l_User = user ss\<rparr>]
      in case save_loan_to_database new_loan s of
           (sa, na, Inl e) \<Rightarrow> (ss, sa, na, Inl e)
         | (sa, na, Inr _) \<Rightarrow>
             (let nb = na @ [St_success ''Loan added successfully!'']
              in if loan_type = ''Given'' then
                   (let new_transaction =
                          [\<lparr>Date = today, Category = ''Other'', Amount = amount,
                            Description = ''Loan Given: '' @ loan_name, Type = ''Expense'',
                            User = user ss\<rparr>]
                    in case save_to_database new_transaction sa of
                         (sb, nc, Inl e) \<Rightarrow> (ss, sb, nb @ nc, Inl e)
                       | (sb, nc, Inr _) \<Rightarrow>
                           (case load_from_database sb of
                              (sc, nd, Inl e) \<Rightarrow> (ss, sc, nb @ nc @ nd, Inl e)
                            | (sc, nd, Inr df) \<Rightarrow>
                                (ss\<lparr>transactions := df\<rparr>, sc,
                                 nb @ nc @ nd @ [St_success ''Loan recorded as an expense in transactions!''],
                                 Inr ())))
                 else (ss, sa, nb, Inr ())))"

text \<open>
  \<^verbatim>\<open>loans\<close>, lines 215-256. \<open>add_loan\<close> is whether the button was pressed. The last
  component is the exception that ended the page, or the frame of loans the page lists.
\<close>

definition loans ::
  "string \<Rightarrow> real \<Rightarrow> string \<Rightarrow> date \<Rightarrow> bool \<Rightarrow> date \<Rightarrow> session \<Rightarrow> store \<Rightarrow>
   session \<times> store \<times> notice list \<times> (py_error + loan frame)" where
  "loans loan_name amount loan_type due_date add_loan today ss s =
     (case (if add_loan then add_loan_submitted loan_name amount loan_type due_date today ss s
            else (ss, s, [], Inr ())) of
        (ss1, s1, n1, Inl e) \<Rightarrow> (ss1, s1, n1, Inl e)
      | (ss1, s1, n1, Inr _) \<Rightarrow>
          (case load_loans_from_database s1 of
             (s2, n2, Inl e) \<Rightarrow> (ss1, s2, n1 @ n2, Inl e)
           | (s2, n2, Inr shown) \<Rightarrow>
               (ss1, s2,
                n1 @ n2 @ (if frame_empty shown then [St_info ''No loans available.''] else []),
                Inr shown)))"

subsection \<open>Export page\<close>

text \<open>
  \<^verbatim>\<open>to_csv(index=False)\<close> writes the column names and then the rows through a CSV
  writer with minimal quoting: a cell is quoted when it holds the delimiter, the quote
  character or a line break, and a quote inside it is doubled. Lines end with a line
  feed.
\<close>

definition csv_field :: "string \<Rightarrow> string" where
  "csv_field c =
     (if list_ex (\<lambda>x. x \<in> set [CHR '','', CHR 0x22, CHR 0x0A, CHR 0x0D]) c
      then [CHR 0x22] @ concat (map (\<lambda>x. if x = CHR 0x22 then [CHR 0x22, CHR 0x22] else [x]) c) @ [CHR 0x22]
      else c)"

fun join_cells :: "string list \<Rightarrow> string" where
  "join_cells [] = []"
| "join_cells [c] = c"
| "join_cells (c # d # cs) = c @ '','' @ join_cells (d # cs)"

definition csv_line :: "string list \<Rightarrow> string" where
  "csv_line cells = join_cells (map csv_field cells)"

text \<open>A date as the store keeps it: \<^verbatim>\<open>YYYY-MM-DD\<close>.\<close>

definition zero_padded :: "nat \<Rightarrow> nat \<Rightarrow> string" where
  "zero_padded k n = map (\<lambda>i. ''0123456789'' ! ((n div 10 ^ (k - Suc i)) mod 10)) [0..<k]"

definition isoformat :: "date \<Rightarrow> string" where
  "isoformat d = (case d of (y, m, dd) \<Rightarrow> zero_padded 4 y @ ''-'' @ zero_padded 2 m @ ''-'' @ zero_padded 2 dd)"

text \<open>
  The text of a float is left open: \<open>float_text\<close> is the function that writes one. A
  frame without columns has an empty header line and no rows.
\<close>

definition to_csv :: "(real \<Rightarrow> string) \<Rightarrow> transaction frame \<Rightarrow> string" where
  "to_csv float_text df =
     (case df of
        Blank \<Rightarrow> [CHR 0x0A]
      | Rows xs \<Rightarrow>
          concat (map (\<lambda>l. l @ [CHR 0x0A])
            (csv_line [''Date'', ''Category'', ''Amount'', ''Description'', ''Type'', ''User'']
             # map (\<lambda>r. csv_line [isoformat (Date r), Category r, float_text (Amount r),
                                    Description r, Type r, User r]) xs)))"

record download =
  label :: string
  data :: string
  file_name :: string
  mime :: string

text \<open>\<^verbatim>\<open>data_export\<close>, lines 258-268: the download offered when the button is pressed.\<close>

definition data_export :: "(real \<Rightarrow> string) \<Rightarrow> bool \<Rightarrow> session \<Rightarrow> download option" where
  "data_export float_text export ss =
     (if export then
        Some \<lparr>label = ''Download CSV'', data = to_csv float_text (transactions ss),
              file_name = ''personal_finance_data.csv'', mime = ''text/csv''\<rparr>
      else None)"

text \<open>The lines of a text: the pieces that end with a line feed, and what follows the last.\<close>

fun lines_from :: "string \<Rightarrow> string \<Rightarrow> string list" where
  "lines_from cur [] = (if cur = [] then [] else [rev cur])"
| "lines_from cur (c # cs) =
     (if c = CHR 0x0A then rev cur # lines_from [] cs else lines_from (c # cur) cs)"

definition split_lines :: "string \<Rightarrow> string list" where
  "split_lines t = lines_from [] t"

text \<open>The lines of the file that the export offers once the button is pressed.\<close>

definition export_lines :: "(real \<Rightarrow> string) \<Rightarrow> session \<Rightarrow> string list option" where
  "export_lines float_text ss = map_option (\<lambda>d. split_lines (data d)) (data_export float_text True ss)"

section \<open>Reachable stores and example inputs\<close>

text \<open>The records of a frame: none for the frame without columns.\<close>

definition frame_rows :: "'r frame \<Rightarrow> 'r list" where
  "frame_rows df = (case df of Blank \<Rightarrow> [] | Rows xs \<Rightarrow> xs)"

text \<open>No two rows of the budget table have the same Category.\<close>

definition budget_unique :: "store \<Rightarrow> bool" where
  "budget_unique s = distinct (map fst (table_rows (tbl_budget s)))"

text \<open>
  The database file before its first use; the same file when it cannot be opened; and
  when it opens but its first statement fails because it is not a database.
\<close>

definition fresh_store :: store where
  "fresh_store = \<lparr>failing = None, tbl_transactions = None, tbl_budget = None,
     tbl_savings_goal = None, tbl_automated_payments = None, tbl_loans = None\<rparr>"

definition offline_store :: store where
  "offline_store = fresh_store\<lparr>failing := Some (0, Sqlite3Error ''unable to open database file'')\<rparr>"

definition corrupt_store :: store where
  "corrupt_store = fresh_store\<lparr>failing := Some (1, Sqlite3Error ''file is not a database'')\<rparr>"

text \<open>A file that another session locks after the first two calls of a function.\<close>

definition locked_store :: store where
  "locked_store = fresh_store\<lparr>failing := Some (2, Sqlite3Error ''database is locked'')\<rparr>"

text \<open>The records a load left to the page: none when it raised or fell back.\<close>

definition loaded_rows :: "py_error + 'r frame \<Rightarrow> 'r list" where
  "loaded_rows r = (case r of Inl e \<Rightarrow> [] | Inr df \<Rightarrow> frame_rows df)"

text \<open>
  The stores the script can produce: it starts from the fresh file, the file may start
  or stop failing at any time, and the script changes it only through its ten
  persistence functions.
\<close>

inductive reachable :: "store \<Rightarrow> bool" where
  fresh: "reachable fresh_store"
| availability: "reachable s \<Longrightarrow> reachable (s\<lparr>failing := f\<rparr>)"
| save_transactions: "reachable s \<Longrightarrow> reachable (fst (save_to_database df s))"
| load_transactions: "reachable s \<Longrightarrow> reachable (fst (load_from_database s))"
| save_budget: "reachable s \<Longrightarrow> reachable (fst (save_budget_to_database budget_data s))"
| load_budget: "reachable s \<Longrightarrow> reachable (fst (load_budget_from_database s))"
| save_goal: "reachable s \<Longrightarrow> reachable (fst (save_savings_goal_to_database u goal s))"
| load_goal: "reachable s \<Longrightarrow> reachable (fst (load_savings_goal_from_database u s))"
| save_payment: "reachable s \<Longrightarrow> reachable (fst (save_automated_payment_to_database pf s))"
| load_payments: "reachable s \<Longrightarrow> reachable (fst (load_automated_payments_from_database s))"
| save_loan: "reachable s \<Longrightarrow> reachable (fst (save_loan_to_database lf s))"
| load_loans: "reachable s \<Longrightarrow> reachable (fst (load_loans_from_database s))"

text \<open>The session that \<^verbatim>\<open>main\<close> sets up when the file cannot be opened.\<close>

definition blank_session :: session where
  "blank_session = \<lparr>user = ''default_user'', transactions = Blank, savings_goal = 0\<rparr>"

text \<open>A ledger of three transactions in two months.\<close>

definition ledger3 :: "transaction list" where
  "ledger3 =
     [\<lparr>Date = (2024, 1, 5), Category = ''Salary'', Amount = 100, Description = ''pay'',
       Type = ''Income'', User = ''default_user''\<rparr>,
      \<lparr>Date = (2024, 1, 9), Category = ''Shopping'', Amount = 30, Description = ''shoes'',
       Type = ''Expense'', User = ''default_user''\<rparr>,
      \<lparr>Date = (2023, 12, 24), Category = ''Other'', Amount = 45, Description = ''gift'',
       Type = ''Expense'', User = ''default_user''\<rparr>]"

text \<open>One expense in the category Other.\<close>

definition other_expense :: transaction where
  "other_expense = \<lparr>Date = (2024, 3, 1), Category = ''Other'', Amount = 50,
     Description = ''repair'', Type = ''Expense'', User = ''default_user''\<rparr>"

text \<open>A row whose description has two lines.\<close>

definition two_line_note :: transaction where
  "two_line_note = \<lparr>Date = (2024, 3, 1), Category = ''Other'', Amount = 50,
     Description = [CHR ''a'', CHR 0x0A, CHR ''b''], Type = ''Expense'', User = ''default_user''\<rparr>"

text \<open>A writer of floats for the examples: it knows the amounts they use.\<close>

definition example_text :: "real \<Rightarrow> string" where
  "example_text a =
     (if a = 100 then ''100.0'' else if a = 30 then ''30.0'' else if a = 45 then ''45.0''
      else if a = 50 then ''50.0'' else ''0.0'')"

section \<open>Facts about the aggregation\<close>

lemma map_of_groupby_sum:
  "map_of (groupby_sum xs) k =
     (if k \<in> fst ` set xs then Some (sum_list (map snd (filter (\<lambda>x. fst x = k) xs))) else None)"
proof -
  have "map_of (map (\<lambda>k. (k, f k)) ks) k = (if k \<in> set ks then Some (f k) else None)" for f :: "'a \<Rightarrow> real" and ks
    by (induction ks) auto
  then show ?thesis
    by (simp add: groupby_sum_def)
qed

lemma filter_absent_key:
  "k \<notin> fst ` set xs \<Longrightarrow> filter (\<lambda>x. fst x = k) xs = []"
  by (induction xs) auto

lemma cell_groupby_sum:
  "(case map_of (groupby_sum xs) k of None \<Rightarrow> 0 | Some a \<Rightarrow> a) =
     sum_list (map snd (filter (\<lambda>x. fst x = k) xs))"
  by (simp add: map_of_groupby_sum filter_absent_key)




lemma unstack_index:
  "map fst (unstack s v) = sort (remdups (map (\<lambda>x. fst (fst x)) s))"
  by (simp add: unstack_def Let_def comp_def)





section \<open>Dashboard claims\<close>

text \<open>
  C4. For every non-empty ledger the dashboard shows, as total income, the sum of Amount
  over the rows whose Type is Income, as total expenses the sum over the rows whose Type
  is Expense, and as net savings their difference; when every Amount is positive both
  totals are at least 0.
\<close>

theorem dashboard_totals:
  assumes "xs \<noteq> []" and "\<forall>r \<in> set xs. 0 < Amount r"
  shows "show_dashboard (Rows xs) =
           Inr (Dashboard
                  (sum_list (map Amount (filter (\<lambda>r. Type r = ''Income'') xs)))
                  (sum_list (map Amount (filter (\<lambda>r. Type r = ''Expense'') xs)))
                  (sum_list (map Amount (filter (\<lambda>r. Type r = ''Income'') xs))
                     - sum_list (map Amount (filter (\<lambda>r. Type r = ''Expense'') xs)))
                  (monthly_summary xs)
                  (if filter (\<lambda>r. Type r = ''Expense'') xs = [] then None
                   else Some (filter (\<lambda>r. Type r = ''Expense'') xs)))
         \<and> 0 \<le> sum_list (map Amount (filter (\<lambda>r. Type r = ''Income'') xs))
         \<and> 0 \<le> sum_list (map Amount (filter (\<lambda>r. Type r = ''Expense'') xs))"
proof -
  have shown: "show_dashboard (Rows xs) =
           Inr (Dashboard
                  (sum_list (map Amount (filter (\<lambda>r. Type r = ''Income'') xs)))
                  (sum_list (map Amount (filter (\<lambda>r. Type r = ''Expense'') xs)))
                  (sum_list (map Amount (filter (\<lambda>r. Type r = ''Income'') xs))
                     - sum_list (map Amount (filter (\<lambda>r. Type r = ''Expense'') xs)))
                  (monthly_summary xs)
                  (if filter (\<lambda>r. Type r = ''Expense'') xs = [] then None
                   else Some (filter (\<lambda>r. Type r = ''Expense'') xs)))"
    using assms(1)
    by (simp add: show_dashboard_def frame_empty_def type_total_def column_def and_then_def Let_def)
  have nonneg: "0 \<le> sum_list (map Amount (filter P xs))" for P
  proof (rule sum_list_nonneg)
    fix a assume "a \<in> set (map Amount (filter P xs))"
    then obtain r where "r \<in> set xs" and "a = Amount r" by auto
    with assms(2) show "0 \<le> a" by force
  qed
  from shown nonneg show ?thesis by simp
qed

theorem dashboard_totals_witness:
  "ledger3 \<noteq> []
   \<and> show_dashboard (Rows ledger3) =
       Inr (Dashboard 100 75 25 (monthly_summary ledger3) (Some (tl ledger3)))"
proof -
  have ne: "ledger3 \<noteq> []" by (simp add: ledger3_def)
  have pos: "\<forall>r \<in> set ledger3. 0 < Amount r" by (simp add: ledger3_def)
  from dashboard_totals [OF ne pos] ne show ?thesis
    by (simp add: ledger3_def)
qed



section \<open>Facts about the store\<close>

lemma online_calls:
  assumes "online s"
  shows "sqlite3_call s = (s, Inr ())" and "direct_call s = (s, Inr ())" and "pandas_call s = (s, Inr ())"
  using assms by (simp_all add: online_def sqlite3_call_def direct_call_def pandas_call_def)

lemma online_tables [simp]:
  "online (s\<lparr>tbl_transactions := a\<rparr>) = online s"
  "online (s\<lparr>tbl_budget := b\<rparr>) = online s"
  "online (s\<lparr>tbl_savings_goal := c\<rparr>) = online s"
  "online (s\<lparr>tbl_automated_payments := d\<rparr>) = online s"
  "online (s\<lparr>tbl_loans := e\<rparr>) = online s"
  by (simp_all add: online_def)

lemma insert_all_online:
  "online s \<Longrightarrow> insert_all d rows s = (s, Inr (fold insert_or_replace d rows))"
  by (induction d arbitrary: rows) (simp_all add: online_calls then_do_def)

lemma save_to_database_online:
  "online s \<Longrightarrow> save_to_database df s =
     (s\<lparr>tbl_transactions := to_sql_append df (tbl_transactions s)\<rparr>, [], Inr ())"
  by (simp add: save_to_database_def online_calls then_do_def except_sqlite3_def)

lemma load_from_database_online:
  "online s \<Longrightarrow> load_from_database s =
     (s\<lparr>tbl_transactions := create_if_not_exists (tbl_transactions s)\<rparr>, [],
      Inr (Rows (table_rows (tbl_transactions s))))"
  by (simp add: load_from_database_def online_calls then_do_def except_sqlite3_def Let_def
      create_if_not_exists_def table_rows_def split: option.splits)

lemma save_budget_to_database_online:
  "online s \<Longrightarrow> save_budget_to_database d s =
     (s\<lparr>tbl_budget := Some (fold insert_or_replace d (table_rows (tbl_budget s)))\<rparr>, [])"
  by (simp add: save_budget_to_database_def online_calls insert_all_online then_do_def Let_def
      create_if_not_exists_def table_rows_def split: option.splits)

lemma load_budget_from_database_online:
  "online s \<Longrightarrow> load_budget_from_database s =
     (case tbl_budget s of
        None \<Rightarrow> (s, [St_error ''An error occurred while loading the budget: no such table: budget''], Map.empty)
      | Some xs \<Rightarrow> (s, [], dict_of_rows xs))"
  by (simp add: load_budget_from_database_def select_budget_def online_calls then_do_def
      error_text_def split: option.splits)

lemma save_savings_goal_to_database_online:
  "online s \<Longrightarrow> save_savings_goal_to_database u goal s =
     (s\<lparr>tbl_savings_goal := Some (insert_or_replace (u, goal) (table_rows (tbl_savings_goal s)))\<rparr>, [])"
  by (simp add: save_savings_goal_to_database_def online_calls then_do_def Let_def
      create_if_not_exists_def table_rows_def split: option.splits)

lemma load_automated_payments_from_database_online:
  "online s \<Longrightarrow> load_automated_payments_from_database s =
     (s\<lparr>tbl_automated_payments := create_if_not_exists (tbl_automated_payments s)\<rparr>, [],
      Inr (Rows (table_rows (tbl_automated_payments s))))"
  by (simp add: load_automated_payments_from_database_def online_calls then_do_def
      except_sqlite3_def Let_def create_if_not_exists_def table_rows_def split: option.splits)



lemma first_call_fails:
  assumes "failing s = Some (0, e)"
  shows "sqlite3_call s = (s, Inl e)" and "direct_call s = (s, Inl (Sqlite3 e))"
  using assms by (simp_all add: sqlite3_call_def direct_call_def)

lemma unopenable:
  assumes "failing s = Some (0, e)"
  shows "load_from_database s =
        (s, [St_error (''An error occurred while loading from the database: '' @ error_text e)], Inr Blank)"
    and "load_automated_payments_from_database s =
        (s, [St_error (''An error occurred while loading automated payments: '' @ error_text e)], Inr Blank)"
    and "load_loans_from_database s =
        (s, [St_error (''An error occurred while loading loans: '' @ error_text e)], Inr Blank)"
    and "load_budget_from_database s =
        (s, [St_error (''An error occurred while loading the budget: '' @ error_text e)], Map.empty)"
    and "load_savings_goal_from_database u s =
        (s, [St_error (''An error occurred while loading the savings goal: '' @ error_text e)], 0)"
    and "save_to_database df s =
        (s, [St_error (''An error occurred while saving to the database: '' @ error_text e)], Inr ())"
    and "save_budget_to_database budget_data s =
        (s, [St_error (''An error occurred while saving the budget: '' @ error_text e)])"
    and "save_savings_goal_to_database u goal s =
        (s, [St_error (''An error occurred while saving the savings goal: '' @ error_text e)])"
    and "save_automated_payment_to_database pf s =
        (s, [St_error (''An error occurred while saving the automated payment: '' @ error_text e)], Inr ())"
    and "save_loan_to_database lf s =
        (s, [St_error (''An error occurred while saving the loan: '' @ error_text e)], Inr ())"
  by (simp_all add: first_call_fails [OF assms] then_do_def except_sqlite3_def
      load_from_database_def load_automated_payments_from_database_def
      load_loans_from_database_def load_budget_from_database_def
      load_savings_goal_from_database_def save_to_database_def save_budget_to_database_def
      save_savings_goal_to_database_def save_automated_payment_to_database_def
      save_loan_to_database_def)

lemma sqlite3_call_budget: "tbl_budget (fst (sqlite3_call s)) = tbl_budget s"
  by (simp add: sqlite3_call_def split: option.splits prod.splits nat.splits)

lemma direct_call_budget: "tbl_budget (fst (direct_call s)) = tbl_budget s"
  using sqlite3_call_budget [of s]
  by (cases "sqlite3_call s") (auto simp: direct_call_def split: sum.splits)

lemma pandas_call_budget: "tbl_budget (fst (pandas_call s)) = tbl_budget s"
  using sqlite3_call_budget [of s]
  by (cases "sqlite3_call s") (auto simp: pandas_call_def split: sum.splits)

lemma then_do_budget:
  assumes "tbl_budget (fst r) = b" and "\<And>x s. tbl_budget s = b \<Longrightarrow> tbl_budget (fst (f x s)) = b"
  shows "tbl_budget (fst (then_do r f)) = b"
  using assms by (cases r) (auto simp: then_do_def split: sum.splits)

lemma except_sqlite3_store: "fst (except_sqlite3 r prefix fallback) = fst r"
  by (cases r) (auto simp: except_sqlite3_def split: sum.splits raised.splits)

lemma budget_kept:
  "tbl_budget (fst (save_to_database df s)) = tbl_budget s"
  "tbl_budget (fst (load_from_database s)) = tbl_budget s"
  "tbl_budget (fst (save_automated_payment_to_database pf s)) = tbl_budget s"
  "tbl_budget (fst (load_automated_payments_from_database s)) = tbl_budget s"
  "tbl_budget (fst (save_loan_to_database lf s)) = tbl_budget s"
  "tbl_budget (fst (load_loans_from_database s)) = tbl_budget s"
  unfolding save_to_database_def load_from_database_def save_automated_payment_to_database_def
    load_automated_payments_from_database_def save_loan_to_database_def
    load_loans_from_database_def except_sqlite3_store Let_def
  by (intro then_do_budget direct_call_budget; simp add: direct_call_budget pandas_call_budget)+

lemma distinct_insert_or_replace:
  "distinct (map fst xs) \<Longrightarrow> distinct (map fst (insert_or_replace kv xs))"
  by (auto simp: insert_or_replace_def distinct_map_filter)

lemma distinct_fold_insert_or_replace:
  "distinct (map fst xs) \<Longrightarrow> distinct (map fst (fold insert_or_replace d xs))"
  by (induction d arbitrary: xs) (simp_all add: distinct_insert_or_replace)

lemma then_do_invariant:
  assumes "P (fst r)"
    and "\<And>x. snd r = Inr x \<Longrightarrow> Q x"
    and "\<And>x s. P s \<Longrightarrow> Q x \<Longrightarrow> P (fst (f x s))"
  shows "P (fst (then_do r f))"
  using assms by (cases r) (auto simp: then_do_def split: sum.splits)

lemma sqlite3_call_unique: "budget_unique (fst (sqlite3_call s)) = budget_unique s"
  by (simp add: budget_unique_def sqlite3_call_budget)

lemma insert_all_budget: "tbl_budget (fst (insert_all d rows s)) = tbl_budget s"
proof (induction d arbitrary: rows s)
  case Nil
  show ?case by simp
next
  case (Cons kv d)
  show ?case
    by (cases "sqlite3_call s")
       (use sqlite3_call_budget [of s] in \<open>auto simp: then_do_def Cons.IH split: sum.splits\<close>)
qed

lemma insert_all_result:
  "snd (insert_all d rows s) = Inr rows' \<Longrightarrow> rows' = fold insert_or_replace d rows"
proof (induction d arbitrary: rows s)
  case Nil
  then show ?case by simp
next
  case (Cons kv d)
  then show ?case
    by (cases "sqlite3_call s") (auto simp: then_do_def split: sum.splits)
qed

lemma budget_unique_save_budget:
  assumes "budget_unique s"
  shows "budget_unique (fst (save_budget_to_database d s))"
proof -
  let ?body = "then_do (sqlite3_call s) (\<lambda>_ s1.
           then_do (sqlite3_call s1) (\<lambda>_ s2.
             (let s3 = s2\<lparr>tbl_budget := create_if_not_exists (tbl_budget s2)\<rparr>
              in then_do (insert_all d (table_rows (tbl_budget s3)) s3) (\<lambda>rows s4.
                 then_do (sqlite3_call s4) (\<lambda>_ s5.
                   (s5\<lparr>tbl_budget := Some rows\<rparr>, Inr ()))))))"
  have created: "budget_unique (s2\<lparr>tbl_budget := create_if_not_exists (tbl_budget s2)\<rparr>)"
    if "budget_unique s2" for s2
    using that by (simp add: budget_unique_def create_if_not_exists_def table_rows_def split: option.splits)
  have written: "budget_unique (fst (then_do (insert_all d (table_rows (tbl_budget s3)) s3) (\<lambda>rows s4.
                 then_do (sqlite3_call s4) (\<lambda>_ s5. (s5\<lparr>tbl_budget := Some rows\<rparr>, Inr ())))))"
    if u: "budget_unique s3" for s3
  proof (rule then_do_invariant [where P = budget_unique and Q = "\<lambda>rows :: (string \<times> real) list. distinct (map fst rows)"])
    show "budget_unique (fst (insert_all d (table_rows (tbl_budget s3)) s3))"
      using u by (simp add: budget_unique_def insert_all_budget)
  next
    fix rows :: "(string \<times> real) list" assume "snd (insert_all d (table_rows (tbl_budget s3)) s3) = Inr rows"
    then have "rows = fold insert_or_replace d (table_rows (tbl_budget s3))"
      by (rule insert_all_result)
    with u show "distinct (map fst rows)"
      by (simp add: budget_unique_def distinct_fold_insert_or_replace)
  next
    fix rows :: "(string \<times> real) list" and s4 assume "budget_unique s4" and d: "distinct (map fst rows)"
    show "budget_unique (fst (then_do (sqlite3_call s4) (\<lambda>_ s5. (s5\<lparr>tbl_budget := Some rows\<rparr>, Inr ()))))"
      by (cases "sqlite3_call s4")
         (use \<open>budget_unique s4\<close> d sqlite3_call_unique [of s4] in
           \<open>auto simp: then_do_def budget_unique_def table_rows_def split: sum.splits\<close>)
  qed
  have "budget_unique (fst ?body)"
  proof (rule then_do_invariant [where P = budget_unique and Q = "\<lambda>_. True"])
    show "budget_unique (fst (sqlite3_call s))" using assms by (simp add: sqlite3_call_unique)
  next
    fix x s1 assume "budget_unique s1"
    show "budget_unique (fst (then_do (sqlite3_call s1) (\<lambda>_ s2.
             (let s3 = s2\<lparr>tbl_budget := create_if_not_exists (tbl_budget s2)\<rparr>
              in then_do (insert_all d (table_rows (tbl_budget s3)) s3) (\<lambda>rows s4.
                 then_do (sqlite3_call s4) (\<lambda>_ s5.
                   (s5\<lparr>tbl_budget := Some rows\<rparr>, Inr ())))))))"
    proof (rule then_do_invariant [where P = budget_unique and Q = "\<lambda>_. True"])
      show "budget_unique (fst (sqlite3_call s1))"
        using \<open>budget_unique s1\<close> by (simp add: sqlite3_call_unique)
    next
      fix y s2 assume "budget_unique s2"
      then show "budget_unique (fst (let s3 = s2\<lparr>tbl_budget := create_if_not_exists (tbl_budget s2)\<rparr>
              in then_do (insert_all d (table_rows (tbl_budget s3)) s3) (\<lambda>rows s4.
                 then_do (sqlite3_call s4) (\<lambda>_ s5.
                   (s5\<lparr>tbl_budget := Some rows\<rparr>, Inr ())))))"
        unfolding Let_def by (intro written created)
    qed simp
  qed simp
  then show ?thesis
    by (cases ?body) (auto simp: save_budget_to_database_def split: sum.splits)
qed

lemma budget_kept_more:
  "tbl_budget (fst (load_budget_from_database s)) = tbl_budget s"
  "tbl_budget (fst (save_savings_goal_to_database u goal s)) = tbl_budget s"
  "tbl_budget (fst (load_savings_goal_from_database u s)) = tbl_budget s"
proof -
  have fst_case: "fst (case r of (s', Inl e) \<Rightarrow> (s', h e) | (s', Inr x) \<Rightarrow> (s', g x)) = fst r"
    for r :: "store \<times> (sqlite_error + 'x)" and h :: "sqlite_error \<Rightarrow> 'y" and g
    by (cases r) (auto split: sum.splits)
  show "tbl_budget (fst (load_budget_from_database s)) = tbl_budget s"
    unfolding load_budget_from_database_def select_budget_def
    by (cases "sqlite3_call s"; cases "sqlite3_call (fst (sqlite3_call s))")
       (use sqlite3_call_budget [of s] sqlite3_call_budget [of "fst (sqlite3_call s)"] in
         \<open>auto simp: then_do_def split: sum.splits option.splits\<close>)
  show "tbl_budget (fst (save_savings_goal_to_database u goal s)) = tbl_budget s"
    unfolding save_savings_goal_to_database_def fst_case Let_def
    by (intro then_do_budget sqlite3_call_budget; simp add: sqlite3_call_budget)+
  show "tbl_budget (fst (load_savings_goal_from_database u s)) = tbl_budget s"
    unfolding load_savings_goal_from_database_def fst_case Let_def
    by (intro then_do_budget sqlite3_call_budget; simp add: sqlite3_call_budget)+
qed

lemma reachable_budget_unique: "reachable s \<Longrightarrow> budget_unique s"
proof (induction rule: reachable.induct)
  case fresh
  show ?case by (simp add: budget_unique_def fresh_store_def table_rows_def)
next
  case (save_budget s budget_data)
  then show ?case by (simp add: budget_unique_save_budget)
qed (simp_all add: budget_unique_def budget_kept budget_kept_more)

lemma other_keys_kept:
  "k \<notin> fst ` set d \<Longrightarrow>
   filter (\<lambda>x. fst x = k) (fold insert_or_replace d t) = filter (\<lambda>x. fst x = k) t"
proof (induction d arbitrary: t)
  case Nil
  show ?case by simp
next
  case (Cons kv d)
  from Cons.prems have "fst kv \<noteq> k" and "k \<notin> fst ` set d" by auto
  have "filter (\<lambda>x. fst x = k) (fold insert_or_replace (kv # d) t)
        = filter (\<lambda>x. fst x = k) (insert_or_replace kv t)"
    using \<open>k \<notin> fst ` set d\<close> by (simp add: Cons.IH)
  also have "\<dots> = filter (\<lambda>x. fst x = k \<and> fst x \<noteq> fst kv) t"
    using \<open>fst kv \<noteq> k\<close> by (simp add: insert_or_replace_def conj_commute)
  also have "\<dots> = filter (\<lambda>x. fst x = k) t"
    using \<open>fst kv \<noteq> k\<close> by (intro filter_cong) auto
  finally show ?case .
qed

lemma saved_key_once:
  "distinct (map fst d) \<Longrightarrow> (k, v) \<in> set d \<Longrightarrow>
   filter (\<lambda>x. fst x = k) (fold insert_or_replace d t) = [(k, v)]"
proof (induction d arbitrary: t)
  case Nil
  then show ?case by simp
next
  case (Cons kv d)
  show ?case
  proof (cases "kv = (k, v)")
    case True
    with Cons.prems have "k \<notin> fst ` set d" by auto
    then have "filter (\<lambda>x. fst x = k) (fold insert_or_replace (kv # d) t)
               = filter (\<lambda>x. fst x = k) (insert_or_replace kv t)"
      by (simp add: other_keys_kept)
    also have "\<dots> = [(k, v)]"
      using True by (simp add: insert_or_replace_def)
    finally show ?thesis .
  next
    case False
    with Cons.prems have "(k, v) \<in> set d" and "distinct (map fst d)" by auto
    then show ?thesis by (simp add: Cons.IH)
  qed
qed

lemma dict_of_rows_snoc: "dict_of_rows (xs @ [x]) = (dict_of_rows xs)(fst x \<mapsto> snd x)"
  by (simp add: dict_of_rows_def)

lemma dict_of_rows_absent:
  "filter (\<lambda>x. fst x = k) xs = [] \<Longrightarrow> dict_of_rows xs k = None"
proof (induction xs rule: rev_induct)
  case Nil
  show ?case by (simp add: dict_of_rows_def)
next
  case (snoc x xs)
  then show ?case by (auto simp: dict_of_rows_snoc split: if_splits)
qed

lemma dict_of_rows_single:
  "filter (\<lambda>x. fst x = k) xs = [(k, v)] \<Longrightarrow> dict_of_rows xs k = Some v"
proof (induction xs rule: rev_induct)
  case Nil
  then show ?case by simp
next
  case (snoc x xs)
  show ?case
  proof (cases "fst x = k")
    case True
    with snoc.prems have "x = (k, v)" by (auto simp: append_eq_Cons_conv split: if_splits)
    then show ?thesis by (simp add: dict_of_rows_snoc)
  next
    case False
    with snoc show ?thesis by (simp add: dict_of_rows_snoc)
  qed
qed

lemma offline_failing: "failing offline_store = Some (0, Sqlite3Error ''unable to open database file'')"
  by (simp add: offline_store_def)

text \<open>
  A failure inside a call of pandas leaves the function: the write of
  \<^verbatim>\<open>save_to_database\<close> is the second call, the read or write of the five other
  functions that use pandas the third.
\<close>

lemma pandas_failure_escapes:
  "failing s = Some (1, e) \<Longrightarrow>
     snd (snd (save_to_database df s)) = Inl (DatabaseError (''Execution failed on sql: '' @ error_text e))"
  "failing s = Some (2, e) \<Longrightarrow>
     snd (snd (load_from_database s)) = Inl (DatabaseError (''Execution failed on sql: '' @ error_text e))"
  "failing s = Some (2, e) \<Longrightarrow>
     snd (snd (save_automated_payment_to_database pf s))
       = Inl (DatabaseError (''Execution failed on sql: '' @ error_text e))"
  "failing s = Some (2, e) \<Longrightarrow>
     snd (snd (load_automated_payments_from_database s))
       = Inl (DatabaseError (''Execution failed on sql: '' @ error_text e))"
  "failing s = Some (2, e) \<Longrightarrow>
     snd (snd (save_loan_to_database lf s)) = Inl (DatabaseError (''Execution failed on sql: '' @ error_text e))"
  "failing s = Some (2, e) \<Longrightarrow>
     snd (snd (load_loans_from_database s)) = Inl (DatabaseError (''Execution failed on sql: '' @ error_text e))"
  by (simp_all add: save_to_database_def load_from_database_def
      save_automated_payment_to_database_def load_automated_payments_from_database_def
      save_loan_to_database_def load_loans_from_database_def then_do_def except_sqlite3_def
      direct_call_def pandas_call_def sqlite3_call_def Let_def numeral_2_eq_2)

text \<open>
  C8, amended. In every store the script can produce, no two rows of the budget table
  have the same Category. When no call into the database fails, saving a budget
  dictionary that assigns 200 to Food \<open>&\<close> Groceries and then loading the budget gives
  200 for that category and the default 0 for every category that is neither in the
  dictionary nor in the table before.
\<close>

theorem budget_upsert:
  "(reachable s \<longrightarrow> budget_unique s)
   \<and> (online s \<and> distinct (map fst d) \<and> (''Food & Groceries'', 200) \<in> set d \<longrightarrow>
        dict_get (snd (snd (load_budget_from_database (fst (save_budget_to_database d s)))))
          ''Food & Groceries'' 0 = 200
        \<and> (\<forall>c. c \<notin> fst ` set d \<and> c \<notin> fst ` set (table_rows (tbl_budget s)) \<longrightarrow>
              dict_get (snd (snd (load_budget_from_database (fst (save_budget_to_database d s))))) c 0 = 0))"
proof -
  have saved: "snd (snd (load_budget_from_database (fst (save_budget_to_database d s))))
               = dict_of_rows (fold insert_or_replace d (table_rows (tbl_budget s)))"
    if "online s"
    using that
    by (simp add: save_budget_to_database_online load_budget_from_database_online)
  have food: "dict_get (dict_of_rows (fold insert_or_replace d (table_rows (tbl_budget s))))
                 ''Food & Groceries'' 0 = 200"
    if "distinct (map fst d)" and "(''Food & Groceries'', 200) \<in> set d"
    using saved_key_once [OF that, of "table_rows (tbl_budget s)"]
    by (simp add: dict_get_def dict_of_rows_single)
  have others: "dict_get (dict_of_rows (fold insert_or_replace d (table_rows (tbl_budget s)))) c 0 = 0"
    if "c \<notin> fst ` set d" and "c \<notin> fst ` set (table_rows (tbl_budget s))" for c
  proof -
    from that(2) have "filter (\<lambda>x. fst x = c) (table_rows (tbl_budget s)) = []"
      by (auto simp: filter_empty_conv)
    with that(1) have "filter (\<lambda>x. fst x = c) (fold insert_or_replace d (table_rows (tbl_budget s))) = []"
      by (simp add: other_keys_kept)
    then show ?thesis
      by (simp add: dict_get_def dict_of_rows_absent)
  qed
  have first: "reachable s \<longrightarrow> budget_unique s"
    by (simp add: reachable_budget_unique)
  have second: "online s \<and> distinct (map fst d) \<and> (''Food & Groceries'', 200) \<in> set d \<longrightarrow>
        dict_get (snd (snd (load_budget_from_database (fst (save_budget_to_database d s)))))
          ''Food & Groceries'' 0 = 200
        \<and> (\<forall>c. c \<notin> fst ` set d \<and> c \<notin> fst ` set (table_rows (tbl_budget s)) \<longrightarrow>
              dict_get (snd (snd (load_budget_from_database (fst (save_budget_to_database d s))))) c 0 = 0)"
  proof (intro impI, elim conjE)
    assume on: "online s" and dist: "distinct (map fst d)" and mem: "(''Food & Groceries'', 200) \<in> set d"
    show "dict_get (snd (snd (load_budget_from_database (fst (save_budget_to_database d s)))))
          ''Food & Groceries'' 0 = 200
        \<and> (\<forall>c. c \<notin> fst ` set d \<and> c \<notin> fst ` set (table_rows (tbl_budget s)) \<longrightarrow>
              dict_get (snd (snd (load_budget_from_database (fst (save_budget_to_database d s))))) c 0 = 0)"
      using food [OF dist mem] others by (simp only: saved [OF on]) blast
  qed
  from first second show ?thesis by (rule conjI)
qed

theorem budget_upsert_witness:
  "reachable (fst (save_budget_to_database [(''Food & Groceries'', 200), (''Other'', 50)] fresh_store))
   \<and> budget_unique (fst (save_budget_to_database [(''Food & Groceries'', 200), (''Other'', 50)] fresh_store))
   \<and> online fresh_store
   \<and> dict_get (snd (snd (load_budget_from_database
         (fst (save_budget_to_database [(''Food & Groceries'', 200), (''Other'', 50)] fresh_store)))))
         ''Food & Groceries'' 0 = 200
   \<and> dict_get (snd (snd (load_budget_from_database
         (fst (save_budget_to_database [(''Food & Groceries'', 200), (''Other'', 50)] fresh_store)))))
         ''Utilities'' 0 = 0"
proof -
  let ?d = "[(''Food & Groceries'', 200 :: real), (''Other'', 50)]"
  have r: "reachable (fst (save_budget_to_database ?d fresh_store))"
    by (intro reachable.save_budget reachable.fresh)
  have on: "online fresh_store" by (simp add: fresh_store_def online_def)
  have d: "distinct (map fst ?d)" "(''Food & Groceries'', 200) \<in> set ?d" by simp_all
  have u: "''Utilities'' \<notin> fst ` set ?d" "''Utilities'' \<notin> fst ` set (table_rows (tbl_budget fresh_store))"
    by (simp_all add: fresh_store_def table_rows_def)
  from budget_upsert [of "fst (save_budget_to_database ?d fresh_store)"] r
  have "budget_unique (fst (save_budget_to_database ?d fresh_store))" by blast
  moreover from budget_upsert [of fresh_store ?d] on d u
  have "dict_get (snd (snd (load_budget_from_database (fst (save_budget_to_database ?d fresh_store)))))
          ''Food & Groceries'' 0 = 200
        \<and> dict_get (snd (snd (load_budget_from_database (fst (save_budget_to_database ?d fresh_store)))))
          ''Utilities'' 0 = 0"
    by blast
  ultimately show ?thesis using r on by blast
qed

text \<open>
  C8 as stated fails when the database cannot be opened: the save is dropped with a
  notice, the load falls back to the empty dictionary, and the page reads 0 where 200
  was saved.
\<close>

theorem budget_upsert_counterexample:
  "dict_get (snd (snd (load_budget_from_database
      (fst (save_budget_to_database [(''Food & Groceries'', 200)] offline_store)))))
      ''Food & Groceries'' 0 = 0"
  by (simp add: unopenable [OF offline_failing] dict_get_def)

section \<open>Persistence claims\<close>

text \<open>
  C9. The specification has every persistence function catch a database error, show a
  notice and return its fallback. The \<^verbatim>\<open>except sqlite3.Error\<close> clauses do so for the
  calls the script makes on \<^verbatim>\<open>sqlite3\<close> itself (lemma \<open>unopenable\<close>; on a file that is
  not a database the ledger load falls back to the empty frame). They do not for a
  statement that pandas runs: on a file that opens but is not a database,
  \<^verbatim>\<open>save_to_database\<close> ends with \<^verbatim>\<open>pandas.errors.DatabaseError\<close>, no notice is shown,
  and the Transactions page ends with that exception; on a file that is locked after the
  table was created, \<^verbatim>\<open>load_from_database\<close> ends the same way and returns no frame.
\<close>

theorem pandas_error_escapes:
  "save_to_database [other_expense] corrupt_store =
     (fresh_store\<lparr>failing := Some (0, Sqlite3Error ''file is not a database'')\<rparr>, [],
      Inl (DatabaseError ''Execution failed on sql: file is not a database''))
   \<and> add_transaction (2024, 3, 1) ''Other'' 50 ''repair'' ''Expense'' blank_session corrupt_store =
     (blank_session, fresh_store\<lparr>failing := Some (0, Sqlite3Error ''file is not a database'')\<rparr>, [],
      Inl (DatabaseError ''Execution failed on sql: file is not a database''))
   \<and> load_from_database locked_store =
     (fresh_store\<lparr>failing := Some (0, Sqlite3Error ''database is locked''), tbl_transactions := Some []\<rparr>,
      [], Inl (DatabaseError ''Execution failed on sql: database is locked''))
   \<and> load_from_database corrupt_store =
     (fresh_store\<lparr>failing := Some (0, Sqlite3Error ''file is not a database'')\<rparr>,
      [St_error ''An error occurred while loading from the database: file is not a database''],
      Inr Blank)"
  by (simp add: save_to_database_def load_from_database_def add_transaction_def
      corrupt_store_def locked_store_def fresh_store_def blank_session_def other_expense_def
      then_do_def except_sqlite3_def direct_call_def pandas_call_def sqlite3_call_def
      error_text_def create_if_not_exists_def Let_def)

text \<open>
  C6, amended. When no call into the database fails, saving a transaction record and
  then loading the ledger gives the rows the table had before, in their order, followed
  by the record itself, so with all six fields as submitted; the rows before are what a
  load without the save returns. The Transactions page builds the record from the form
  and the session's user, and caches exactly that reloaded ledger.
\<close>

theorem append_reload:
  assumes "online s"
  shows "snd (snd (load_from_database s)) = Inr (Rows (table_rows (tbl_transactions s)))
         \<and> snd (snd (load_from_database (fst (save_to_database [r] s))))
             = Inr (Rows (table_rows (tbl_transactions s) @ [r]))
         \<and> set (table_rows (tbl_transactions s))
             \<subseteq> set (loaded_rows (snd (snd (load_from_database (fst (save_to_database [r] s))))))
         \<and> r \<in> set (loaded_rows (snd (snd (load_from_database (fst (save_to_database [r] s))))))
         \<and> transactions (fst (add_transaction date category amount description transaction_type ss s))
             = Rows (table_rows (tbl_transactions s)
                     @ [\<lparr>Date = date, Category = category, Amount = amount,
                         Description = description, Type = transaction_type, User = user ss\<rparr>])"
  using assms
  by (auto simp: save_to_database_online load_from_database_online add_transaction_def
      to_sql_append_def table_rows_def loaded_rows_def frame_rows_def Let_def)

theorem append_reload_witness:
  "online fresh_store
   \<and> snd (snd (load_from_database (fst (save_to_database [other_expense] fresh_store))))
       = Inr (Rows [other_expense])
   \<and> other_expense
       \<in> set (loaded_rows (snd (snd (load_from_database (fst (save_to_database [other_expense] fresh_store))))))"
proof -
  have on: "online fresh_store" by (simp add: fresh_store_def online_def)
  have none: "table_rows (tbl_transactions fresh_store) = []"
    by (simp add: fresh_store_def table_rows_def)
  from append_reload [OF on, where r = other_expense] none on show ?thesis
    by (simp add: loaded_rows_def frame_rows_def)
qed

text \<open>
  C6 as stated fails for a store that cannot be opened: the save is dropped with a
  notice and the reload returns the empty frame, which does not hold the record.
\<close>

theorem append_reload_counterexample:
  "other_expense
     \<notin> set (loaded_rows (snd (snd (load_from_database (fst (save_to_database [other_expense] offline_store))))))"
  by (simp add: unopenable [OF offline_failing] loaded_rows_def frame_rows_def)

section \<open>Loans claim\<close>




section \<open>Savings claim\<close>

text \<open>
  What the savings page computes from a ledger that has its columns: savings are total
  income minus total expenses, the adjusted figure subtracts the sum of the Amount of
  every automated payment that was loaded (all of the table when no call fails, none
  when the load fell back), and progress is adjusted over goal for a positive goal and
  0 otherwise, cut to the interval from 0 to 1. The figure written as current savings is
  the adjusted one, uncut.
\<close>

lemma savings_progress:
  assumes "online s"
  shows "snd (snd (snd (savings_goals typed update (ss\<lparr>transactions := Rows xs\<rparr>) s))) =
     Inr (sum_list (map Amount (filter (\<lambda>r. Type r = ''Income'') xs))
            - sum_list (map Amount (filter (\<lambda>r. Type r = ''Expense'') xs))
            - sum_list (map p_Amount (table_rows (tbl_automated_payments s))),
          max 0 (min (if number_input typed (savings_goal ss) > 0
                      then (sum_list (map Amount (filter (\<lambda>r. Type r = ''Income'') xs))
                            - sum_list (map Amount (filter (\<lambda>r. Type r = ''Expense'') xs))
                            - sum_list (map p_Amount (table_rows (tbl_automated_payments s))))
                           / number_input typed (savings_goal ss)
                      else 0) 1))"
  using assms
  by (simp add: savings_goals_def Let_def type_total_def column_def and_then_def
      save_savings_goal_to_database_online load_automated_payments_from_database_online
      table_rows_def split: option.splits)

lemma savings_progress_fallback:
  assumes "failing s = Some (0, e)"
  shows "snd (snd (snd (savings_goals typed update (ss\<lparr>transactions := Rows xs\<rparr>) s))) =
     Inr (sum_list (map Amount (filter (\<lambda>r. Type r = ''Income'') xs))
            - sum_list (map Amount (filter (\<lambda>r. Type r = ''Expense'') xs)),
          max 0 (min (if number_input typed (savings_goal ss) > 0
                      then (sum_list (map Amount (filter (\<lambda>r. Type r = ''Income'') xs))
                            - sum_list (map Amount (filter (\<lambda>r. Type r = ''Expense'') xs)))
                           / number_input typed (savings_goal ss)
                      else 0) 1))"
  by (simp add: savings_goals_def Let_def type_total_def column_def and_then_def
      unopenable [OF assms])

lemma progress_cases:
  fixes adjusted goal :: real
  shows "goal \<le> 0 \<Longrightarrow> max 0 (min (if goal > 0 then adjusted / goal else 0) 1) = 0"
    and "0 < goal \<Longrightarrow> goal \<le> adjusted \<Longrightarrow> max 0 (min (if goal > 0 then adjusted / goal else 0) 1) = 1"
    and "adjusted < 0 \<Longrightarrow> max 0 (min (if goal > 0 then adjusted / goal else 0) 1) = 0"
    and "0 \<le> max 0 (min (if goal > 0 then adjusted / goal else 0) 1)"
    and "max 0 (min (if goal > 0 then adjusted / goal else 0) 1) \<le> 1"
  by (auto simp: max_def min_def zero_le_divide_iff divide_le_0_iff not_le not_less)

text \<open>
  C1. The specification has the savings computation for every ledger, with progress 0
  whenever the goal is 0. The ledger that \<^verbatim>\<open>main\<close> caches when the database cannot be
  opened is the frame without columns, and on it the savings page stops at line 167
  with \<^verbatim>\<open>KeyError: 'Type'\<close> before anything is computed, the goal being 0.
\<close>

theorem savings_page_blank_ledger:
  "init_session offline_store =
     (offline_store,
      [St_error ''An error occurred while loading from the database: unable to open database file'',
       St_error ''An error occurred while loading the savings goal: unable to open database file''],
      Inr blank_session)
   \<and> savings_goals None False blank_session offline_store =
       (blank_session, offline_store, [], Inl (KeyError ''Type''))"
  by (simp add: init_session_def unopenable [OF offline_failing] blank_session_def error_text_def
      savings_goals_def number_input_def type_total_def column_def and_then_def)

section \<open>Budget claims\<close>

text \<open>
  The comparison rows of lines 131-139: one per budget entry, in order, with the budget
  of the entry, the sum of the Expense rows of its category as Actual, and Difference
  = Budget - Actual; the alert loop would flag exactly the rows with Actual above Budget.
\<close>

lemma actual_spending_cell:
  "actual_spending (Rows xs) = Inr series \<Longrightarrow>
   dict_get (map_of series) c 0 =
     sum_list (map Amount (filter (\<lambda>r. Type r = ''Expense'' \<and> Category r = c) xs))"
proof -
  assume "actual_spending (Rows xs) = Inr series"
  then have series: "series = groupby_sum (map (\<lambda>r. (Category r, Amount r)) (filter (\<lambda>r. Type r = ''Expense'') xs))"
    by (simp add: actual_spending_def column_def and_then_def)
  have "sum_list (map snd (filter (\<lambda>x. fst x = c) (map (\<lambda>r. (Category r, Amount r)) ys)))
        = sum_list (map Amount (filter (\<lambda>r. Category r = c) ys))" for ys
    by (induction ys) auto
  then have "dict_get (map_of series) c 0
        = sum_list (map Amount (filter (\<lambda>r. Category r = c) (filter (\<lambda>r. Type r = ''Expense'') xs)))"
    by (simp only: series dict_get_def cell_groupby_sum)
  then show ?thesis
    by (simp add: conj_commute)
qed

lemma comparison_rows:
  "map c_Category (comparison_data new_budget_data series) = map fst new_budget_data
   \<and> map Budget (comparison_data new_budget_data series) = map snd new_budget_data
   \<and> (\<forall>row \<in> set (comparison_data new_budget_data series).
         Actual row = dict_get (map_of series) (c_Category row) 0
         \<and> Difference row = Budget row - Actual row)"
  by (auto simp: comparison_data_def Let_def split: prod.splits)

lemma alerts_flagged:
  "row \<in> set (budget_alerts comparison_df) \<longleftrightarrow> row \<in> set comparison_df \<and> Actual row > Budget row"
  by (auto simp: budget_alerts_def)

text \<open>
  C3. The specification has a category flagged as overspending exactly when Actual
  exceeds Budget. With one expense of 50 in Other and no budget set, the comparison row of Other
  has Actual 50 above Budget 0, and the alert loop would flag it, but the page stops at
  line 142 with \<^verbatim>\<open>NameError: go\<close> and shows no alert.
\<close>

theorem budget_page_never_flags:
  "budget_management (\<lambda>c. None) False (blank_session\<lparr>transactions := Rows [other_expense]\<rparr>) fresh_store =
     (fresh_store,
      [St_error ''An error occurred while loading the budget: no such table: budget''],
      Inl (NameError ''go''))
   \<and> map c_Category
       (budget_alerts (comparison_data (map (\<lambda>c. (c, 0)) categories) [(''Other'', 50)])) = [''Other'']"
proof -
  have on: "online fresh_store" by (simp add: fresh_store_def online_def)
  have page: "budget_management (\<lambda>c. None) False (blank_session\<lparr>transactions := Rows [other_expense]\<rparr>) fresh_store =
     (fresh_store,
      [St_error ''An error occurred while loading the budget: no such table: budget''],
      Inl (NameError ''go''))"
  proof -
    have "load_budget_from_database fresh_store =
        (fresh_store, [St_error ''An error occurred while loading the budget: no such table: budget''],
         Map.empty)"
      by (simp add: load_budget_from_database_online [OF on]) (simp add: fresh_store_def)
    then show ?thesis
      by (simp add: budget_management_def actual_spending_def column_def and_then_def
          budget_chart_def lookup_name_def module_names_def Let_def)
  qed
  have flagged: "map c_Category
       (budget_alerts (comparison_data (map (\<lambda>c. (c, 0)) categories) [(''Other'', 50)])) = [''Other'']"
    by (simp add: comparison_data_def budget_alerts_def dict_get_def categories_def)
  from page flagged show ?thesis by (rule conjI)
qed

text \<open>
  C10. The name \<^verbatim>\<open>go\<close> is not bound in the module, so building the comparison chart
  raises NameError for every comparison frame; the Budget page never gets past the
  chart to the alerts, whatever the widgets, the session and the store; and with a
  ledger that has its columns NameError is the exception that ends the page.
\<close>

theorem budget_chart_name_error:
  "budget_chart comparison_df = Inl (NameError ''go'')
   \<and> (case budget_management typed save_budget ss s of (s', notes, outcome) \<Rightarrow> isl outcome)
   \<and> (case budget_management typed save_budget (ss\<lparr>transactions := Rows xs\<rparr>) s of
        (s', notes, outcome) \<Rightarrow> outcome = Inl (NameError ''go''))"
proof -
  have chart: "budget_chart c = Inl (NameError ''go'')" for c
    by (simp add: budget_chart_def lookup_name_def module_names_def and_then_def)
  have never: "case budget_management typed save_budget ss s of (s', notes, outcome) \<Rightarrow> isl outcome"
    by (cases "transactions ss")
       (simp_all add: budget_management_def Let_def chart and_then_def actual_spending_def
         column_def split: prod.splits)
  have always: "case budget_management typed save_budget (ss\<lparr>transactions := Rows xs\<rparr>) s of
        (s', notes, outcome) \<Rightarrow> outcome = Inl (NameError ''go'')"
    by (simp add: budget_management_def Let_def chart and_then_def actual_spending_def
         column_def split: prod.splits)
  from chart never always show ?thesis by blast
qed

section \<open>Export claim\<close>

lemma lines_from_line:
  "CHR 0x0A \<notin> set l \<Longrightarrow> lines_from cur (l @ CHR 0x0A # rest) = (rev cur @ l) # lines_from [] rest"
  by (induction l arbitrary: cur) auto

lemma split_lines_terminated:
  "\<forall>l \<in> set ls. CHR 0x0A \<notin> set l \<Longrightarrow> split_lines (concat (map (\<lambda>l. l @ [CHR 0x0A]) ls)) = ls"
  unfolding split_lines_def
  by (induction ls) (simp_all add: lines_from_line)

lemma csv_field_no_line_feed:
  "CHR 0x0A \<notin> set c \<Longrightarrow> CHR 0x0A \<notin> set (csv_field c)"
  by (auto simp: csv_field_def split: if_splits)

lemma join_cells_no_line_feed:
  "\<forall>c \<in> set cells. CHR 0x0A \<notin> set c \<Longrightarrow> CHR 0x0A \<notin> set (join_cells cells)"
  by (induction cells rule: join_cells.induct) auto

lemma csv_line_no_line_feed:
  "\<forall>c \<in> set cells. CHR 0x0A \<notin> set c \<Longrightarrow> CHR 0x0A \<notin> set (csv_line cells)"
  unfolding csv_line_def
  by (rule join_cells_no_line_feed) (auto simp: csv_field_no_line_feed)

lemma digit_no_line_feed: "''0123456789'' ! (n mod 10) \<noteq> CHR 0x0A"
proof -
  have "n mod 10 < length ''0123456789''" by simp
  then have "''0123456789'' ! (n mod 10) \<in> set ''0123456789''" by (rule nth_mem)
  then show ?thesis by auto
qed

lemma zero_padded_no_line_feed: "CHR 0x0A \<notin> set (zero_padded k n)"
proof
  assume "CHR 0x0A \<in> set (zero_padded k n)"
  then obtain i where "''0123456789'' ! ((n div 10 ^ (k - Suc i)) mod 10) = CHR 0x0A"
    by (auto simp: zero_padded_def)
  then show False by (simp only: digit_no_line_feed)
qed

lemma isoformat_no_line_feed: "CHR 0x0A \<notin> set (isoformat d)"
  by (cases d) (simp add: isoformat_def zero_padded_no_line_feed)

lemma header_line:
  "csv_line [''Date'', ''Category'', ''Amount'', ''Description'', ''Type'', ''User'']
   = ''Date,Category,Amount,Description,Type,User''"
  by (simp add: csv_line_def csv_field_def)

text \<open>
  C7, amended. For a ledger that has its columns and \<open>N\<close> records, none of whose text
  cells holds a line feed, and a float writer that writes none, the export offers a
  file named \<^verbatim>\<open>personal_finance_data.csv\<close> whose content is \<open>N\<close> + 1 lines: the header
  \<^verbatim>\<open>Date,Category,Amount,Description,Type,User\<close>, then one line per record, in
  insertion order, with the six cells in that order.
\<close>

theorem csv_export_lines:
  assumes float: "\<forall>a. CHR 0x0A \<notin> set (float_text a)"
    and cells: "\<forall>r \<in> set xs. CHR 0x0A \<notin> set (Category r) \<and> CHR 0x0A \<notin> set (Description r)
                  \<and> CHR 0x0A \<notin> set (Type r) \<and> CHR 0x0A \<notin> set (User r)"
  shows "map_option file_name (data_export float_text True (ss\<lparr>transactions := Rows xs\<rparr>))
           = Some ''personal_finance_data.csv''
         \<and> export_lines float_text (ss\<lparr>transactions := Rows xs\<rparr>)
           = Some (''Date,Category,Amount,Description,Type,User''
                   # map (\<lambda>r. csv_line [isoformat (Date r), Category r, float_text (Amount r),
                                          Description r, Type r, User r]) xs)
         \<and> map_option length (export_lines float_text (ss\<lparr>transactions := Rows xs\<rparr>))
           = Some (length xs + 1)"
proof -
  let ?rows = "map (\<lambda>r. csv_line [isoformat (Date r), Category r, float_text (Amount r),
                                   Description r, Type r, User r]) xs"
  let ?all = "csv_line [''Date'', ''Category'', ''Amount'', ''Description'', ''Type'', ''User''] # ?rows"
  have "\<forall>l \<in> set ?rows. CHR 0x0A \<notin> set l"
  proof
    fix l assume "l \<in> set ?rows"
    then obtain r where r: "r \<in> set xs"
      and l: "l = csv_line [isoformat (Date r), Category r, float_text (Amount r),
                            Description r, Type r, User r]" by auto
    from cells r float show "CHR 0x0A \<notin> set l"
      unfolding l by (intro csv_line_no_line_feed) (auto simp: isoformat_no_line_feed)
  qed
  then have "\<forall>l \<in> set ?all. CHR 0x0A \<notin> set l"
    by (simp add: header_line)
  then have "split_lines (concat (map (\<lambda>l. l @ [CHR 0x0A]) ?all)) = ?all"
    by (rule split_lines_terminated)
  then have lines: "split_lines (to_csv float_text (Rows xs))
                    = ''Date,Category,Amount,Description,Type,User'' # ?rows"
    by (simp add: to_csv_def header_line)
  show ?thesis
    by (simp add: export_lines_def data_export_def lines)
qed

theorem csv_export_lines_witness:
  "export_lines example_text (blank_session\<lparr>transactions := Rows ledger3\<rparr>)
     = Some [''Date,Category,Amount,Description,Type,User'',
             ''2024-01-05,Salary,100.0,pay,Income,default_user'',
             ''2024-01-09,Shopping,30.0,shoes,Expense,default_user'',
             ''2023-12-24,Other,45.0,gift,Expense,default_user'']"
proof -
  have float: "\<forall>a. CHR 0x0A \<notin> set (example_text a)" by (simp add: example_text_def)
  have cells: "\<forall>r \<in> set ledger3. CHR 0x0A \<notin> set (Category r) \<and> CHR 0x0A \<notin> set (Description r)
                  \<and> CHR 0x0A \<notin> set (Type r) \<and> CHR 0x0A \<notin> set (User r)"
    by (simp add: ledger3_def)
  have rows: "map (\<lambda>r. csv_line [isoformat (Date r), Category r, example_text (Amount r),
                                  Description r, Type r, User r]) ledger3
     = [''2024-01-05,Salary,100.0,pay,Income,default_user'',
        ''2024-01-09,Shopping,30.0,shoes,Expense,default_user'',
        ''2023-12-24,Other,45.0,gift,Expense,default_user'']"
    by (simp add: ledger3_def csv_line_def csv_field_def isoformat_def zero_padded_def
        upt_conv_Cons example_text_def)
  from csv_export_lines [OF float cells, of blank_session] rows show ?thesis by simp
qed

text \<open>
  C7 as stated fails in two ways. The ledger cached after a failed load has no columns,
  and its export is one empty line, not the header. And a description with a line feed
  is written inside quotes with the line feed kept, so one record takes two lines and a
  ledger of 1 record exports 3 lines.
\<close>

theorem csv_export_counterexample:
  "export_lines example_text blank_session = Some [[]]
   \<and> map_option length (export_lines example_text (blank_session\<lparr>transactions := Rows [two_line_note]\<rparr>))
       = Some 3"
  by (simp add: export_lines_def data_export_def to_csv_def csv_line_def csv_field_def
      isoformat_def zero_padded_def upt_conv_Cons split_lines_def example_text_def
      blank_session_def two_line_note_def)

end
